theory Spec2Isabelle
  imports Main
begin

section \<open>Python text\<close>

text \<open>
  A Python \<open>str\<close> is a sequence of Unicode code points, and \<open>len\<close>, slicing and
  \<open>split\<close> count code points. The model therefore uses lists of code points
  (natural numbers), not byte strings. Literals of the source that are not ASCII are
  written out as their code points; each such constant names the literal it stands for.
\<close>

type_synonym pystr = "nat list"

definition ascii :: "string \<Rightarrow> pystr" where
  "ascii s = map of_char s"

text \<open>\<open>sep.join(parts)\<close>.\<close>

fun join_str :: "pystr \<Rightarrow> pystr list \<Rightarrow> pystr" where
  "join_str sep [] = []"
| "join_str sep [x] = x"
| "join_str sep (x # y # ys) = x @ sep @ join_str sep (y # ys)"

text \<open>Truthiness of an \<open>Optional[str]\<close>: \<open>None\<close> and the empty string are false.\<close>

fun truthy :: "pystr option \<Rightarrow> bool" where
  "truthy None = False"
| "truthy (Some s) = (s \<noteq> [])"

text \<open>
  The characters Python's \<open>str.isspace\<close> accepts; \<open>str.split()\<close> and
  \<open>str.strip()\<close> without arguments treat exactly these as whitespace.
\<close>

definition is_space :: "nat \<Rightarrow> bool" where
  "is_space c \<longleftrightarrow>
     c \<in> set [9, 10, 11, 12, 13, 28, 29, 30, 31, 32, 133, 160, 5760,
       8192, 8193, 8194, 8195, 8196, 8197, 8198, 8199, 8200, 8201, 8202,
       8232, 8233, 8239, 8287, 12288]"

text \<open>
  \<open>s.split()\<close>: the maximal runs of non-whitespace characters, in order. The scan
  keeps the word read so far in \<open>w\<close>.
\<close>

fun split_scan :: "pystr \<Rightarrow> pystr \<Rightarrow> pystr list" where
  "split_scan w [] = (if w = [] then [] else [w])"
| "split_scan w (c # cs) =
     (if is_space c then (if w = [] then split_scan [] cs else w # split_scan [] cs)
      else split_scan (w @ [c]) cs)"

definition split_ws :: "pystr \<Rightarrow> pystr list" where
  "split_ws s = split_scan [] s"

text \<open>\<open>s.strip()\<close>.\<close>

definition strip :: "pystr \<Rightarrow> pystr" where
  "strip s = rev (dropWhile is_space (rev (dropWhile is_space s)))"

definition SPACE :: pystr where
  "SPACE = [32]"

section \<open>Data model\<close>

text \<open>The dataclass \<open>ProductInfo\<close> (source lines 96-102).\<close>

record ProductInfo =
  title :: pystr
  price :: "pystr option"
  shop_name :: "pystr option"

section \<open>Review generation (source lines 174-199)\<close>

text \<open>The literals of \<open>generate_review\<close>, as code points.\<close>

definition NEWLINE :: pystr where
  "NEWLINE = [10]"

definition MIDDLE_DOT :: pystr where
  \<comment> \<open>the separator and bullet mark, U+30FB\<close>
  "MIDDLE_DOT = [12539]"

definition ELLIPSIS :: pystr where
  \<comment> \<open>the single character U+2026\<close>
  "ELLIPSIS = [8230]"

definition PRICE_SUFFIX :: pystr where
  \<comment> \<open>the text after \<open>{info.price}\<close> at line 179\<close>
  "PRICE_SUFFIX = [12391, 25163, 12395, 20837, 12427]"

definition SHOP_SUFFIX :: pystr where
  \<comment> \<open>the text after \<open>{info.shop_name}\<close> at line 181\<close>
  "SHOP_SUFFIX = [12398, 20154, 27671, 12450, 12452, 12486, 12512]"

definition SUMMARY_PREFIX :: pystr where
  \<comment> \<open>the text before \<open>{key_point_summary}\<close> at line 191\<close>
  "SUMMARY_PREFIX = [35201, 28857, 58, 32]"

definition DESIGN_PREFIX :: pystr where
  \<comment> \<open>the text before \<open>{info.title}\<close> at line 185\<close>
  "DESIGN_PREFIX = [12487, 12470, 12452, 12531, 58, 32]"

definition DESIGN_SUFFIX :: pystr where
  \<comment> \<open>the text after \<open>{info.title}\<close> at line 185\<close>
  "DESIGN_SUFFIX = [12398, 39749, 21147, 12434, 27963, 12363, 12375, 12383,
     19978, 36074, 12394, 20181, 19978, 12364, 12426, 12290]"

definition USABILITY_BULLET :: pystr where
  \<comment> \<open>the literal at line 186\<close>
  "USABILITY_BULLET = [20351, 12356, 21213, 25163, 58, 32, 26085, 24120, 12363,
     12425, 29305, 21029, 12394, 12471, 12540, 12531, 12414, 12391, 24133, 24195,
     12367, 27963, 36493, 12290]"

definition SATISFACTION_BULLET :: pystr where
  \<comment> \<open>the literal at line 187\<close>
  "SATISFACTION_BULLET = [28288, 36275, 24230, 58, 32, 21475, 12467, 12511, 12391,
     12418, 39640, 35413, 20385, 12391, 36104, 12426, 29289, 12395, 12418, 12362,
     12377, 12377, 12417, 12290]"

definition key_point_parts :: "ProductInfo \<Rightarrow> pystr list" where
  "key_point_parts info =
     [title info]
     @ (case price info of
          Some p \<Rightarrow> if truthy (Some p) then [p @ PRICE_SUFFIX] else []
        | None \<Rightarrow> [])
     @ (case shop_name info of
          Some s \<Rightarrow> if truthy (Some s) then [s @ SHOP_SUFFIX] else []
        | None \<Rightarrow> [])"

definition key_point_summary :: "ProductInfo \<Rightarrow> pystr" where
  "key_point_summary info = join_str MIDDLE_DOT (key_point_parts info)"

definition bullet_points :: "ProductInfo \<Rightarrow> pystr list" where
  "bullet_points info =
     [DESIGN_PREFIX @ title info @ DESIGN_SUFFIX, USABILITY_BULLET, SATISFACTION_BULLET]"

definition review_lines :: "ProductInfo \<Rightarrow> pystr list" where
  "review_lines info =
     [SUMMARY_PREFIX @ key_point_summary info, []]
     @ map (\<lambda>point. MIDDLE_DOT @ point) (bullet_points info)"

text \<open>The value of \<open>review\<close> at line 196, before the cap is applied.\<close>

definition untruncated_review :: "ProductInfo \<Rightarrow> pystr" where
  "untruncated_review info = join_str NEWLINE (review_lines info)"

definition generate_review :: "ProductInfo \<Rightarrow> pystr" where
  "generate_review info =
     (let review = untruncated_review info
      in if length review > 400 then take 397 review @ ELLIPSIS else review)"

section \<open>Extraction (source lines 145-171)\<close>

text \<open>
  The parsed document is the library's; the code only asks it for the first element
  matching a CSS selector (\<open>select_one\<close>), and of an element only whether it has a
  \<open>content\<close> attribute, that attribute's value, and \<open>get_text(strip=True)\<close>.
  An element is modelled by its \<open>content\<close> attribute, if any, and the text strings
  below it in document order; a document by what \<open>select_one\<close> answers for each
  selector. An element object is always true in a condition, so \<open>if node\<close> tests
  for \<open>None\<close> only.
\<close>

record node =
  content_attr :: "pystr option"
  strings :: "pystr list"

type_synonym soup = "string \<Rightarrow> node option"

text \<open>
  \<open>node.get_text(strip=True)\<close>: every text string is stripped, the empty ones are
  dropped, and the rest are concatenated with the empty separator.
\<close>

definition get_text_strip :: "node \<Rightarrow> pystr" where
  "get_text_strip n = concat (filter (\<lambda>s. s \<noteq> []) (map strip (strings n)))"

definition DEFAULT_TITLE_SELECTORS :: "string list" where
  "DEFAULT_TITLE_SELECTORS =
     [''meta[property='og:title']'', ''h1[itemprop='name']'', ''title'']"

definition DEFAULT_PRICE_SELECTORS :: "string list" where
  "DEFAULT_PRICE_SELECTORS =
     [''span[itemprop='price']'', ''.price2'', ''span[class*='price']'']"

definition DEFAULT_SHOP_SELECTORS :: "string list" where
  "DEFAULT_SHOP_SELECTORS = [''a[itemprop='seller']'', ''a[class*='ShopName']'']"

definition DEFAULT_TITLE :: pystr where
  \<comment> \<open>the placeholder literal at line 147\<close>
  "DEFAULT_TITLE = [27005, 22825, 12398, 21830, 21697]"

text \<open>
  \<open>_first_text_match\<close> (lines 158-165). Besides the result, the model returns the
  selectors handed to \<open>select_one\<close>, in the order of the calls.
\<close>

fun first_text_match :: "soup \<Rightarrow> string list \<Rightarrow> pystr option \<times> string list" where
  "first_text_match doc [] = (None, [])"
| "first_text_match doc (selector # selectors) =
     (case doc selector of
        Some n \<Rightarrow>
          (case content_attr n of
             Some v \<Rightarrow> (Some v, [selector])
           | None \<Rightarrow> (Some (get_text_strip n), [selector]))
      | None \<Rightarrow>
          (let (r, asked) = first_text_match doc selectors in (r, selector # asked)))"

text \<open>\<open>_clean_text\<close> (lines 168-171).\<close>

definition clean_text :: "pystr option \<Rightarrow> pystr option" where
  "clean_text v =
     (if \<not> truthy v then None
      else case v of Some s \<Rightarrow> Some (join_str SPACE (split_ws s)) | None \<Rightarrow> None)"

text \<open>
  Lines 147-155 of \<open>fetch_product_info\<close>: what is built from the parsed document.
  \<open>x or d\<close> is \<open>d\<close> when \<open>x\<close> is \<open>None\<close> or empty.
\<close>

definition product_info_of_soup :: "soup \<Rightarrow> ProductInfo" where
  "product_info_of_soup doc =
     (let title0 = (case fst (first_text_match doc DEFAULT_TITLE_SELECTORS) of
                      Some t \<Rightarrow> if truthy (Some t) then t else DEFAULT_TITLE
                    | None \<Rightarrow> DEFAULT_TITLE);
          price0 = fst (first_text_match doc DEFAULT_PRICE_SELECTORS);
          shop0 = fst (first_text_match doc DEFAULT_SHOP_SELECTORS);
          title1 = (if title0 \<noteq> [] \<and> 10 \<in> set title0
                    then join_str SPACE (split_ws title0) else title0)
      in \<lparr>title = strip title1, price = clean_text price0, shop_name = clean_text shop0\<rparr>)"

section \<open>Exceptions, actions and the outside world\<close>

text \<open>
  An exception of the browser-automation library carries a message, and the library's
  \<open>str\<close> of it is the line \<open>Message: <msg>\<close> followed by what the library appends
  about a screenshot and a stack trace (\<open>report\<close>, empty for an exception built from
  a message alone).
\<close>

record wd_error =
  msg :: pystr
  report :: pystr

definition wd_str :: "wd_error \<Rightarrow> pystr" where
  "wd_str e = ascii ''Message: '' @ msg e @ NEWLINE @ report e"

datatype exn =
    TimeoutException wd_error
  | NoSuchElementException wd_error
  | WebDriverException wd_error
  | IndexError
  | RuntimeError pystr
  | SystemExit pystr

datatype by_strategy = By_ID | By_NAME | By_CSS_SELECTOR | By_PARTIAL_LINK_TEXT

type_synonym locator = "by_strategy \<times> pystr"

type_synonym element = nat

text \<open>
  Everything the program does to the outside world, in the order it does it: HTTP
  requests, sleeps and calls on the browser driver.
\<close>

datatype action =
    Http_get pystr int
  | Sleep int
  | Create_driver bool
  | Driver_get pystr
  | Until_clickable int locator
  | Until_presence int locator
  | Until_windows int nat
  | Window_handles
  | Switch_to nat
  | Click element
  | Clear element
  | Send_keys element pystr
  | Quit

text \<open>
  The browser is a deterministic but otherwise arbitrary environment: what it answers
  may depend on everything done so far. A wait gives an element or raises, reading
  the window handles gives a list or raises, every other call returns nothing or
  raises.
\<close>

record world =
  wait_reply :: "action list \<Rightarrow> action \<Rightarrow> exn + element"
  handles_reply :: "action list \<Rightarrow> exn + nat list"
  command_reply :: "action list \<Rightarrow> action \<Rightarrow> exn option"

text \<open>
  A statement sequence takes the actions done so far and returns an exception or a
  value, with the actions extended.
\<close>

type_synonym 'a prog = "action list \<Rightarrow> (exn + 'a) \<times> action list"

definition ret :: "'a \<Rightarrow> 'a prog" where
  "ret x tr = (Inr x, tr)"

definition raise :: "exn \<Rightarrow> 'a prog" where
  "raise e tr = (Inl e, tr)"

definition then_do :: "'a prog \<Rightarrow> ('a \<Rightarrow> 'b prog) \<Rightarrow> 'b prog" where
  "then_do m f tr = (case m tr of (Inl e, tr1) \<Rightarrow> (Inl e, tr1) | (Inr x, tr1) \<Rightarrow> f x tr1)"

definition wait_for :: "world \<Rightarrow> action \<Rightarrow> element prog" where
  "wait_for w a tr = (wait_reply w tr a, tr @ [a])"

definition command :: "world \<Rightarrow> action \<Rightarrow> unit prog" where
  "command w a tr =
     (case command_reply w tr a of None \<Rightarrow> (Inr (), tr @ [a]) | Some e \<Rightarrow> (Inl e, tr @ [a]))"

definition window_handles :: "world \<Rightarrow> (nat list) prog" where
  "window_handles w tr = (handles_reply w tr, tr @ [Window_handles])"

definition sleep :: "int \<Rightarrow> unit prog" where
  "sleep n tr = (Inr (), tr @ [Sleep n])"

text \<open>\<open>try: m except TimeoutException as exc: h exc\<close>.\<close>

definition except_timeout :: "'a prog \<Rightarrow> (wd_error \<Rightarrow> 'a prog) \<Rightarrow> 'a prog" where
  "except_timeout m h tr =
     (case m tr of
        (Inl (TimeoutException d), tr1) \<Rightarrow> h d tr1
      | r \<Rightarrow> r)"

text \<open>\<open>try: m finally: fin\<close>; an exception of \<open>fin\<close> replaces the outcome of \<open>m\<close>.\<close>

definition try_finally :: "'a prog \<Rightarrow> unit prog \<Rightarrow> 'a prog" where
  "try_finally m fin tr =
     (case m tr of
        (r, tr1) \<Rightarrow> (case fin tr1 of (Inl e, tr2) \<Rightarrow> (Inl e, tr2) | (Inr u, tr2) \<Rightarrow> (r, tr2)))"

section \<open>Fetching the page (source lines 116-155)\<close>

text \<open>
  An attempt either gets a response, with its status code and body, or the request
  raises a \<open>RequestException\<close>. \<open>raise_for_status\<close> raises one as well for a status
  from 400 to 599. The network is given by the outcome of the attempt numbered \<open>k\<close>.
\<close>

datatype http_result = Response (status_code: nat) (body: pystr) | RequestException

fun attempt_body :: "http_result \<Rightarrow> pystr option" where
  "attempt_body (Response st b) = (if 400 \<le> st \<and> st < 600 then None else Some b)"
| "attempt_body RequestException = None"

definition FETCH_ERROR_MSG :: pystr where
  \<comment> \<open>the message at line 136\<close>
  "FETCH_ERROR_MSG = [21830, 21697, 12506, 12540, 12472, 12398, 21462, 24471, 20013,
     12395, 12479, 12452, 12512, 12450, 12454, 12488, 12414, 12383, 12399, 36890, 20449,
     12456, 12521, 12540, 12364, 30330, 29983, 12375, 12414, 12375, 12383, 12290]"

definition FETCH_FAILED_MSG :: pystr where
  \<comment> \<open>the message at lines 140 and 143\<close>
  "FETCH_FAILED_MSG = [21830, 21697, 12506, 12540, 12472, 12398, 21462, 24471, 12395,
     22833, 25943, 12375, 12414, 12375, 12383, 12290]"

text \<open>
  The loop of lines 127-140, from the attempt numbered \<open>attempt\<close> on. Running past
  \<open>retries\<close> is the \<open>else\<close> of the \<open>for\<close>; \<open>break\<close> returns the body of the
  response, which is then never \<open>None\<close> at line 142.
\<close>

function fetch_loop ::
  "(int \<Rightarrow> http_result) \<Rightarrow> pystr \<Rightarrow> int \<Rightarrow> int \<Rightarrow> int \<Rightarrow> pystr prog" where
  "fetch_loop net url retries timeout attempt tr =
     (if attempt > retries then (Inl (RuntimeError FETCH_FAILED_MSG), tr)
      else
        (let tr1 = tr @ [Http_get url timeout]
         in case attempt_body (net attempt) of
              Some b \<Rightarrow> (Inr b, tr1)
            | None \<Rightarrow>
                if attempt = retries then (Inl (RuntimeError FETCH_ERROR_MSG), tr1)
                else fetch_loop net url retries timeout (attempt + 1)
                       (tr1 @ [Sleep (2 * attempt)])))"
  by pat_completeness auto
termination
  by (relation "measure (\<lambda>(net, url, retries, timeout, attempt, tr). nat (retries + 1 - attempt))")
    auto

definition fetch_page :: "(int \<Rightarrow> http_result) \<Rightarrow> pystr \<Rightarrow> int \<Rightarrow> int \<Rightarrow> pystr prog" where
  "fetch_page net url retries timeout = fetch_loop net url retries timeout 1"

text \<open>
  \<open>fetch_product_info\<close>; the HTML parser is the library's and is a parameter.
\<close>

definition fetch_product_info ::
  "(int \<Rightarrow> http_result) \<Rightarrow> (pystr \<Rightarrow> soup) \<Rightarrow> pystr \<Rightarrow> int \<Rightarrow> int \<Rightarrow> ProductInfo prog" where
  "fetch_product_info net parse url retries timeout =
     then_do (fetch_page net url retries timeout)
       (\<lambda>b. ret (product_info_of_soup (parse b)))"

section \<open>Browser automation (source lines 66-113 and 215-298)\<close>

definition DEFAULT_ROOM_REVIEW_SELECTORS :: "locator list" where
  "DEFAULT_ROOM_REVIEW_SELECTORS =
     [(By_CSS_SELECTOR, ascii ''textarea[name='comment']''),
      (By_CSS_SELECTOR, ascii ''textarea[class*='comment']'')]"

definition DEFAULT_ROOM_SUBMIT_SELECTORS :: "locator list" where
  "DEFAULT_ROOM_SUBMIT_SELECTORS =
     [(By_CSS_SELECTOR, ascii ''button[type='submit']''),
      (By_CSS_SELECTOR, ascii ''button[class*='submit']'')]"

definition LOGIN_USERNAME_SELECTORS :: "locator list" where
  "LOGIN_USERNAME_SELECTORS =
     [(By_ID, ascii ''loginInner_u''), (By_NAME, ascii ''u''), (By_NAME, ascii ''login_id'')]"

definition LOGIN_PASSWORD_SELECTORS :: "locator list" where
  "LOGIN_PASSWORD_SELECTORS =
     [(By_ID, ascii ''loginInner_p''), (By_NAME, ascii ''p''), (By_NAME, ascii ''passwd'')]"

definition LOGIN_SUBMIT_SELECTORS :: "locator list" where
  "LOGIN_SUBMIT_SELECTORS =
     [(By_ID, ascii ''loginInner_y''), (By_NAME, ascii ''submit''),
      (By_CSS_SELECTOR, ascii ''button[type='submit']'')]"

text \<open>The dataclass \<open>RoomPosterConfig\<close> (lines 105-113).\<close>

record RoomPosterConfig =
  username :: "pystr option"
  password :: "pystr option"
  headless :: bool
  review_selectors :: "locator list"
  submit_selectors :: "locator list"

text \<open>
  \<open>_find_first_element\<close> (lines 285-298). The wait object is given by its timeout.
  A \<open>TimeoutException\<close> or \<open>NoSuchElementException\<close> of a wait is kept in
  \<open>last_error\<close> and the next locator is tried; any other exception leaves the
  function. An exception object is always true in a condition, so \<open>if last_error\<close>
  tests for \<open>None\<close> only.
\<close>

fun find_first_loop ::
  "world \<Rightarrow> int \<Rightarrow> locator list \<Rightarrow> wd_error option \<Rightarrow> element prog" where
  "find_first_loop w t [] last_error tr =
     (case last_error of
        Some d \<Rightarrow> (Inl (TimeoutException \<lparr>msg = wd_str d, report = []\<rparr>), tr)
      | None \<Rightarrow>
          (Inl (TimeoutException \<lparr>msg = ascii ''No selectors provided'', report = []\<rparr>), tr))"
| "find_first_loop w t (l # ls) last_error tr =
     (case wait_reply w tr (Until_presence t l) of
        Inl (TimeoutException d) \<Rightarrow>
          find_first_loop w t ls (Some d) (tr @ [Until_presence t l])
      | Inl (NoSuchElementException d) \<Rightarrow>
          find_first_loop w t ls (Some d) (tr @ [Until_presence t l])
      | r \<Rightarrow> (r, tr @ [Until_presence t l]))"

definition find_first_element :: "world \<Rightarrow> int \<Rightarrow> locator list \<Rightarrow> element prog" where
  "find_first_element w t selectors = find_first_loop w t selectors None"

definition ROOM_LINK_TEXT :: pystr where
  \<comment> \<open>the link text at line 222\<close>
  "ROOM_LINK_TEXT = [82, 79, 79, 77, 12408, 25237, 31295]"

text \<open>
  \<open>navigate_to_room\<close> (lines 215-229). \<open>window_handles\<close> is read twice; indexing
  an empty list with \<open>-1\<close> raises \<open>IndexError\<close>.
\<close>

definition navigate_to_room :: "world \<Rightarrow> pystr \<Rightarrow> unit prog" where
  "navigate_to_room w product_url =
     then_do (command w (Driver_get product_url)) (\<lambda>_.
     then_do (wait_for w (Until_clickable 15 (By_PARTIAL_LINK_TEXT, ROOM_LINK_TEXT))) (\<lambda>room_link.
     then_do (command w (Click room_link)) (\<lambda>_.
     then_do (sleep 1) (\<lambda>_.
     then_do (window_handles w) (\<lambda>hs.
       if length hs > 1
       then then_do (window_handles w) (\<lambda>hs2.
              if hs2 = [] then raise IndexError else command w (Switch_to (last hs2)))
       else ret ())))))"

text \<open>
  \<open>login_if_required\<close> (lines 232-259). The first \<open>try\<close> gives both fields, or
  nothing when its handler returns from the function.
\<close>

definition LOGIN_SUBMIT_MSG :: pystr where
  "LOGIN_SUBMIT_MSG = ascii ''Unable to locate login submit button.''"

definition login_if_required :: "world \<Rightarrow> RoomPosterConfig \<Rightarrow> unit prog" where
  "login_if_required w config =
     (case (username config, password config) of
        (Some user, Some pass) \<Rightarrow>
          if \<not> truthy (Some user) \<or> \<not> truthy (Some pass) then ret ()
          else
            then_do
              (except_timeout
                 (then_do (find_first_element w 15 LOGIN_USERNAME_SELECTORS) (\<lambda>username_input.
                  then_do (find_first_element w 15 LOGIN_PASSWORD_SELECTORS) (\<lambda>password_input.
                  ret (Some (username_input, password_input)))))
                 (\<lambda>exc. ret None))
              (\<lambda>fields.
                 case fields of
                   None \<Rightarrow> ret ()
                 | Some (username_input, password_input) \<Rightarrow>
                     then_do (command w (Clear username_input)) (\<lambda>_.
                     then_do (command w (Send_keys username_input user)) (\<lambda>_.
                     then_do (command w (Clear password_input)) (\<lambda>_.
                     then_do (command w (Send_keys password_input pass)) (\<lambda>_.
                     then_do
                       (except_timeout (find_first_element w 15 LOGIN_SUBMIT_SELECTORS)
                          (\<lambda>exc. raise (RuntimeError LOGIN_SUBMIT_MSG)))
                       (\<lambda>login_button.
                     then_do (command w (Click login_button)) (\<lambda>_.
                     then_do (command w (Until_windows 15 1)) (\<lambda>_.
                     sleep 1))))))))
      | _ \<Rightarrow> ret ())"

text \<open>\<open>post_review\<close> (lines 262-282).\<close>

definition REVIEW_TEXTAREA_MSG :: pystr where
  "REVIEW_TEXTAREA_MSG = ascii ''Unable to locate ROOM review textarea.''"

definition ROOM_SUBMIT_MSG :: pystr where
  "ROOM_SUBMIT_MSG = ascii ''Unable to locate ROOM submit button.''"

definition post_review :: "world \<Rightarrow> pystr \<Rightarrow> RoomPosterConfig \<Rightarrow> unit prog" where
  "post_review w review config =
     then_do
       (except_timeout (find_first_element w 20 (review_selectors config))
          (\<lambda>exc. raise (RuntimeError REVIEW_TEXTAREA_MSG)))
       (\<lambda>textarea.
     then_do (command w (Clear textarea)) (\<lambda>_.
     then_do (command w (Send_keys textarea review)) (\<lambda>_.
     then_do
       (except_timeout (find_first_element w 20 (submit_selectors config))
          (\<lambda>exc. raise (RuntimeError ROOM_SUBMIT_MSG)))
       (\<lambda>submit_button.
     then_do (command w (Click submit_button)) (\<lambda>_.
     sleep 3)))))"

section \<open>The run (source lines 328-343)\<close>

text \<open>
  Lines 338-343 of \<open>main\<close>: the three steps on the created driver, and \<open>quit\<close> in
  the \<open>finally\<close>.
\<close>

definition posting_workflow :: "world \<Rightarrow> RoomPosterConfig \<Rightarrow> pystr \<Rightarrow> pystr \<Rightarrow> unit prog" where
  "posting_workflow w config url review =
     try_finally
       (then_do (navigate_to_room w url) (\<lambda>_.
        then_do (login_if_required w config) (\<lambda>_.
        post_review w review config)))
       (command w Quit)"

definition FETCH_EXIT_MSG :: pystr where
  \<comment> \<open>the message at line 332\<close>
  "FETCH_EXIT_MSG = [21830, 21697, 24773, 22577, 12398, 21462, 24471, 12395, 22833,
     25943, 12375, 12414, 12375, 12383, 12290, 12493, 12483, 12488, 12527, 12540, 12463,
     29872, 22659, 12434, 30906, 35469, 12375, 12289, 20877, 24230, 12362, 35430, 12375,
     12367, 12384, 12373, 12356, 12290]"

text \<open>
  \<open>main\<close> from line 328, with the command line already read into \<open>config\<close> and
  \<open>url\<close>.
\<close>

definition main ::
  "(int \<Rightarrow> http_result) \<Rightarrow> (pystr \<Rightarrow> soup) \<Rightarrow> world \<Rightarrow> RoomPosterConfig \<Rightarrow> pystr \<Rightarrow> unit prog" where
  "main net parse w config url tr =
     (case fetch_product_info net parse url 3 20 tr of
        (Inl (RuntimeError m), tr1) \<Rightarrow> (Inl (SystemExit FETCH_EXIT_MSG), tr1)
      | (Inl e, tr1) \<Rightarrow> (Inl e, tr1)
      | (Inr product_info, tr1) \<Rightarrow>
          then_do (command w (Create_driver (headless config)))
            (\<lambda>_. posting_workflow w config url (generate_review product_info)) tr1)"

section \<open>Reading the record of actions\<close>

text \<open>
  What the retry loop is expected to have done when the attempt numbered \<open>k\<close> is
  its last one, starting with the attempt numbered \<open>a\<close>: every attempt before the
  last is a request followed by a sleep of twice its number, and the last attempt is
  a request alone.
\<close>

definition backoff_steps :: "pystr \<Rightarrow> int \<Rightarrow> int \<Rightarrow> int \<Rightarrow> action list" where
  "backoff_steps url timeout a k =
     concat (map (\<lambda>j. [Http_get url timeout, Sleep (2 * j)]) [a..k - 1]) @ [Http_get url timeout]"

fun is_http_get :: "action \<Rightarrow> bool" where
  "is_http_get (Http_get u t) = True"
| "is_http_get a = False"

fun sleep_of :: "action \<Rightarrow> int list" where
  "sleep_of (Sleep n) = [n]"
| "sleep_of a = []"

text \<open>The durations of the sleeps among the actions, in order.\<close>

definition sleeps :: "action list \<Rightarrow> int list" where
  "sleeps tr = concat (map sleep_of tr)"

text \<open>
  The detail of a wait failure that \<open>_find_first_element\<close> catches, if the reply is
  one; the waits for a list of locators; and that every locator of a list fails to be
  located, each tried in order with timeout \<open>t\<close>, starting after the actions \<open>tr\<close>.
\<close>

fun wait_failure :: "exn + element \<Rightarrow> wd_error option" where
  "wait_failure (Inl (TimeoutException d)) = Some d"
| "wait_failure (Inl (NoSuchElementException d)) = Some d"
| "wait_failure r = None"

definition waits :: "int \<Rightarrow> locator list \<Rightarrow> action list" where
  "waits t selectors = map (Until_presence t) selectors"

fun all_fail :: "world \<Rightarrow> int \<Rightarrow> locator list \<Rightarrow> action list \<Rightarrow> bool" where
  "all_fail w t [] tr = True"
| "all_fail w t (l # ls) tr =
     (wait_failure (wait_reply w tr (Until_presence t l)) \<noteq> None
      \<and> all_fail w t ls (tr @ [Until_presence t l]))"

text \<open>A statement sequence only adds actions, and never a \<open>quit\<close>.\<close>

definition no_quit :: "'a prog \<Rightarrow> bool" where
  "no_quit m \<longleftrightarrow> (\<forall>tr. \<exists>new. snd (m tr) = tr @ new \<and> Quit \<notin> set new)"

section \<open>Concrete inputs\<close>

text \<open>A product whose title alone has 400 characters (the letter a).\<close>

definition long_title_info :: ProductInfo where
  "long_title_info = \<lparr>title = replicate 400 97, price = None, shop_name = None\<rparr>"

text \<open>
  The product of the blanket scenario: the title is the eleven characters
  U+30D5 U+30FC U+30C9 U+4ED8 U+304D U+30D6 U+30E9 U+30F3 U+30B1 U+30C3 U+30C8,
  the price is a yen sign followed by \<open>3,980\<close>, the shop is two white circles
  followed by U+30B7 U+30E7 U+30C3 U+30D7.
\<close>

definition blanket_info :: ProductInfo where
  "blanket_info =
     \<lparr>title = [12501, 12540, 12489, 20184, 12365, 12502, 12521, 12531, 12465, 12483, 12488],
      price = Some [165, 51, 44, 57, 56, 48],
      shop_name = Some [9675, 9675, 12471, 12519, 12483, 12503]\<rparr>"

text \<open>
  A network whose first request raises, whose second is answered with status 503 and
  whose third is answered with status 200; and one on which every request raises.
\<close>

definition flaky_net :: "int \<Rightarrow> http_result" where
  "flaky_net k =
     (if k = 3 then Response 200 (ascii ''<title>Shop</title>'')
      else if k = 2 then Response 503 [] else RequestException)"

definition dead_net :: "int \<Rightarrow> http_result" where
  "dead_net k = RequestException"

text \<open>
  A page whose only matching element is \<open><meta property="og:title" content=" ">\<close>:
  the title attribute holds one space.
\<close>

definition blank_title_soup :: soup where
  "blank_title_soup sel =
     (if sel = ''meta[property='og:title']''
      then Some \<lparr>content_attr = Some [32], strings = []\<rparr> else None)"

text \<open>
  A page with an \<open>og:title\<close> element carrying \<open>content="Blanket"\<close> and a
  \<open>title\<close> element with the text \<open> Shop page \<close>; and a page with only an
  \<open>h1\<close> name element, whose text comes in three strings, the second of
  whitespace only.
\<close>

definition og_title_soup :: soup where
  "og_title_soup sel =
     (if sel = ''meta[property='og:title']''
      then Some \<lparr>content_attr = Some (ascii ''Blanket''), strings = []\<rparr>
      else if sel = ''title''
      then Some \<lparr>content_attr = None, strings = [ascii '' Shop page '']\<rparr>
      else None)"

definition h1_soup :: soup where
  "h1_soup sel =
     (if sel = ''h1[itemprop='name']''
      then Some \<lparr>content_attr = None, strings = [ascii '' Warm '', ascii ''  '', ascii ''rug'']\<rparr>
      else None)"

text \<open>
  Browsers. In the first the first wait times out, the second finds no element and
  every later one gives element 7; in the second every wait fails, the third with no
  element found; in the third the first two waits give elements 1 and 2 and every later
  one times out; in the fourth only the first wait gives an element. Every other call
  succeeds in all of them.
\<close>

definition timeout_error :: wd_error where
  "timeout_error = \<lparr>msg = [], report = []\<rparr>"

definition missing_error :: wd_error where
  "missing_error = \<lparr>msg = ascii ''no such element'', report = []\<rparr>"

definition third_wait_world :: world where
  "third_wait_world =
     \<lparr>wait_reply = (\<lambda>tr a. if length tr = 0 then Inl (TimeoutException timeout_error)
                          else if length tr = 1 then Inl (NoSuchElementException missing_error)
                          else Inr 7),
      handles_reply = (\<lambda>tr. Inr [0]),
      command_reply = (\<lambda>tr a. None)\<rparr>"

definition no_element_world :: world where
  "no_element_world =
     \<lparr>wait_reply = (\<lambda>tr a. if length tr = 2 then Inl (NoSuchElementException missing_error)
                          else Inl (TimeoutException timeout_error)),
      handles_reply = (\<lambda>tr. Inr [0]),
      command_reply = (\<lambda>tr a. None)\<rparr>"

definition fields_only_world :: world where
  "fields_only_world =
     \<lparr>wait_reply = (\<lambda>tr a. if length tr < 2 then Inr (Suc (length tr))
                          else Inl (TimeoutException timeout_error)),
      handles_reply = (\<lambda>tr. Inr [0]),
      command_reply = (\<lambda>tr a. None)\<rparr>"

definition username_only_world :: world where
  "username_only_world =
     \<lparr>wait_reply = (\<lambda>tr a. if length tr = 0 then Inr 1
                          else Inl (TimeoutException timeout_error)),
      handles_reply = (\<lambda>tr. Inr [0]),
      command_reply = (\<lambda>tr a. None)\<rparr>"

text \<open>A configuration with both credentials, and one without a user name.\<close>

definition member_config :: RoomPosterConfig where
  "member_config =
     \<lparr>username = Some (ascii ''hanako''), password = Some (ascii ''secret''), headless = True,
      review_selectors = DEFAULT_ROOM_REVIEW_SELECTORS,
      submit_selectors = DEFAULT_ROOM_SUBMIT_SELECTORS\<rparr>"

definition guest_config :: RoomPosterConfig where
  "guest_config =
     \<lparr>username = None, password = Some (ascii ''secret''), headless = True,
      review_selectors = DEFAULT_ROOM_REVIEW_SELECTORS,
      submit_selectors = DEFAULT_ROOM_SUBMIT_SELECTORS\<rparr>"

text \<open>
  The actions of a login up to the filled form: both fields are found by their first
  locator, then cleared and filled.
\<close>

definition login_fill :: "action list" where
  "login_fill =
     [Until_presence 15 (By_ID, ascii ''loginInner_u''),
      Until_presence 15 (By_ID, ascii ''loginInner_p''),
      Clear 1, Send_keys 1 (ascii ''hanako''), Clear 2, Send_keys 2 (ascii ''secret'')]"

section \<open>Properties of review generation\<close>

lemma length_join_str:
  "length (join_str sep xs) = sum_list (map length xs) + (length xs - 1) * length sep"
  by (induction sep xs rule: join_str.induct) simp_all

text \<open>
  Claim C1. For every product description the generated review has at most 400
  characters, and whenever the assembled text (summary line, blank line, three bullet
  lines joined by newlines) is longer than 400 characters, the review is the first 397
  characters of that text followed by the single ellipsis character.
\<close>

theorem generate_review_cap:
  "length (generate_review info) \<le> 400 \<and>
   (length (untruncated_review info) > 400 \<longrightarrow>
      generate_review info = take 397 (untruncated_review info) @ [8230])"
  by (simp add: generate_review_def Let_def ELLIPSIS_def)

theorem generate_review_cap_witness:
  "400 < length (untruncated_review long_title_info) \<and>
   generate_review long_title_info = take 397 (untruncated_review long_title_info) @ [8230]"
proof -
  have "400 < length (untruncated_review long_title_info)"
    by (simp add: untruncated_review_def length_join_str review_lines_def
        long_title_info_def key_point_summary_def key_point_parts_def bullet_points_def)
  then show ?thesis
    using generate_review_cap [of long_title_info] by simp
qed

text \<open>
  Claim C10. For the blanket product the review is the summary line
  (the prefix, the title, the price phrase and the shop phrase joined by the middle
  dot), an empty line, and three bullet lines, and it has at most 400 characters. The
  summary line is written out in code points; no line contains a newline.
\<close>

theorem blanket_review:
  "generate_review blanket_info =
     [35201, 28857, 58, 32, 12501, 12540, 12489, 20184, 12365, 12502, 12521, 12531,
      12465, 12483, 12488, 12539, 165, 51, 44, 57, 56, 48, 12391, 25163, 12395, 20837,
      12427, 12539, 9675, 9675, 12471, 12519, 12483, 12503, 12398, 20154, 27671, 12450,
      12452, 12486, 12512]
     @ [10] @ [] @ [10]
     @ (12539 # DESIGN_PREFIX @ title blanket_info @ DESIGN_SUFFIX) @ [10]
     @ (12539 # USABILITY_BULLET) @ [10]
     @ (12539 # SATISFACTION_BULLET)
   \<and> 10 \<notin> set (SUMMARY_PREFIX @ key_point_summary blanket_info @ DESIGN_PREFIX
         @ title blanket_info @ DESIGN_SUFFIX @ USABILITY_BULLET @ SATISFACTION_BULLET)
   \<and> length (generate_review blanket_info) \<le> 400"
  by (simp add: generate_review_def untruncated_review_def review_lines_def
      key_point_summary_def key_point_parts_def bullet_points_def blanket_info_def
      NEWLINE_def MIDDLE_DOT_def PRICE_SUFFIX_def SHOP_SUFFIX_def SUMMARY_PREFIX_def
      DESIGN_PREFIX_def DESIGN_SUFFIX_def USABILITY_BULLET_def SATISFACTION_BULLET_def)

section \<open>Properties of extraction\<close>

lemma first_text_match_none:
  "\<forall>s \<in> set sels. doc s = None \<Longrightarrow> first_text_match doc sels = (None, sels)"
  by (induction sels) simp_all

lemma strip_default_title: "strip DEFAULT_TITLE = DEFAULT_TITLE"
  by (simp add: strip_def DEFAULT_TITLE_def is_space_def)

text \<open>
  Claim C4. When no selector of the title, price and shop lists matches an element of
  the document, extraction gives the placeholder title (U+697D U+5929 U+306E U+5546
  U+54C1) and neither a price nor a shop name.
\<close>

theorem no_match_defaults:
  assumes "\<forall>sel \<in> set (DEFAULT_TITLE_SELECTORS @ DEFAULT_PRICE_SELECTORS @ DEFAULT_SHOP_SELECTORS).
             doc sel = None"
  shows "product_info_of_soup doc =
           \<lparr>title = [27005, 22825, 12398, 21830, 21697], price = None, shop_name = None\<rparr>"
proof -
  from assms have "first_text_match doc DEFAULT_TITLE_SELECTORS = (None, DEFAULT_TITLE_SELECTORS)"
    and "first_text_match doc DEFAULT_PRICE_SELECTORS = (None, DEFAULT_PRICE_SELECTORS)"
    and "first_text_match doc DEFAULT_SHOP_SELECTORS = (None, DEFAULT_SHOP_SELECTORS)"
    by (simp_all add: first_text_match_none)
  moreover have "10 \<notin> set DEFAULT_TITLE" by (simp add: DEFAULT_TITLE_def)
  ultimately have "product_info_of_soup doc =
      \<lparr>title = strip DEFAULT_TITLE, price = None, shop_name = None\<rparr>"
    by (simp add: product_info_of_soup_def clean_text_def)
  then show ?thesis by (simp add: strip_default_title) (simp add: DEFAULT_TITLE_def)
qed

theorem no_match_defaults_witness:
  "product_info_of_soup (\<lambda>sel. None) =
     \<lparr>title = [27005, 22825, 12398, 21830, 21697], price = None, shop_name = None\<rparr>"
  using no_match_defaults [of "\<lambda>sel. None"] by simp

text \<open>
  Claim C5. When the first selector of a list matches an element, that selector is
  the only one handed to the document, whatever selectors follow it, and the result
  is the element's \<open>content\<close> attribute when it has one and its stripped text
  otherwise.
\<close>

theorem first_selector_short_circuit:
  assumes "doc selector = Some n"
  shows "fst (first_text_match doc (selector # others)) =
           (case content_attr n of Some v \<Rightarrow> Some v | None \<Rightarrow> Some (get_text_strip n))
         \<and> snd (first_text_match doc (selector # others)) = [selector]"
  using assms by (simp split: option.splits)


theorem first_selector_short_circuit_witness:
  "first_text_match og_title_soup DEFAULT_TITLE_SELECTORS
     = (Some (ascii ''Blanket''), [''meta[property='og:title']''])
   \<and> first_text_match h1_soup [''h1[itemprop='name']'', ''title'']
     = (Some (ascii ''Warmrug''), [''h1[itemprop='name']''])"
proof -
  have a: "og_title_soup ''meta[property='og:title']''
             = Some \<lparr>content_attr = Some (ascii ''Blanket''), strings = []\<rparr>"
    by (simp add: og_title_soup_def)
  have b: "h1_soup ''h1[itemprop='name']''
             = Some \<lparr>content_attr = None, strings = [ascii '' Warm '', ascii ''  '', ascii ''rug'']\<rparr>"
    by (simp add: h1_soup_def)
  have c: "get_text_strip \<lparr>content_attr = None, strings = [ascii '' Warm '', ascii ''  '', ascii ''rug'']\<rparr>
             = ascii ''Warmrug''"
    by (simp add: get_text_strip_def strip_def ascii_def is_space_def)
  from a have "fst (first_text_match og_title_soup DEFAULT_TITLE_SELECTORS) = Some (ascii ''Blanket'')
      \<and> snd (first_text_match og_title_soup DEFAULT_TITLE_SELECTORS) = [''meta[property='og:title']'']"
    using first_selector_short_circuit
      [of og_title_soup "''meta[property='og:title']''"
         "\<lparr>content_attr = Some (ascii ''Blanket''), strings = []\<rparr>"
         "[''h1[itemprop='name']'', ''title'']"]
    by (simp add: DEFAULT_TITLE_SELECTORS_def)
  moreover from b c have "fst (first_text_match h1_soup [''h1[itemprop='name']'', ''title'']) = Some (ascii ''Warmrug'')
      \<and> snd (first_text_match h1_soup [''h1[itemprop='name']'', ''title'']) = [''h1[itemprop='name']'']"
    using first_selector_short_circuit
      [of h1_soup "''h1[itemprop='name']''"
         "\<lparr>content_attr = None, strings = [ascii '' Warm '', ascii ''  '', ascii ''rug'']\<rparr>"
         "[''title'']"]
    by simp
  ultimately show ?thesis
    by (simp add: prod_eq_iff)
qed

text \<open>
  Claim C6. The title is required to be non-empty when the review is generated. On
  the page whose \<open>og:title\<close> element has the content of one space the extracted
  title is empty: the placeholder is chosen before the title is stripped, so a title
  of whitespace only passes the test and is then stripped to nothing.
\<close>

theorem blank_title_is_empty: "title (product_info_of_soup blank_title_soup) = []"
  by (simp add: product_info_of_soup_def DEFAULT_TITLE_SELECTORS_def blank_title_soup_def
      strip_def is_space_def)

section \<open>Properties of whitespace normalization\<close>

lemma is_space_32: "is_space 32"
  by (simp add: is_space_def)

lemma split_scan_word:
  "\<forall>c \<in> set u. \<not> is_space c \<Longrightarrow> split_scan w (u @ rest) = split_scan (w @ u) rest"
  by (induction u arbitrary: w) simp_all

lemma split_scan_words:
  "x \<in> set (split_scan w s) \<Longrightarrow> \<forall>c \<in> set w. \<not> is_space c \<Longrightarrow>
     x \<noteq> [] \<and> (\<forall>c \<in> set x. \<not> is_space c)"
proof (induction s arbitrary: w)
  case Nil
  then show ?case by (auto split: if_splits)
next
  case (Cons c cs)
  show ?case
  proof (cases "is_space c")
    case True
    with Cons.prems have "x = w \<and> w \<noteq> [] \<or> x \<in> set (split_scan [] cs)"
      by (auto split: if_splits)
    then show ?thesis
      using Cons.IH [of "[]"] Cons.prems(2) by auto
  next
    case False
    with Cons.prems have "x \<in> set (split_scan (w @ [c]) cs)" by simp
    then show ?thesis
      using Cons.IH [of "w @ [c]"] Cons.prems(2) False by auto
  qed
qed

lemma split_ws_join:
  "\<forall>x \<in> set ws. x \<noteq> [] \<and> (\<forall>c \<in> set x. \<not> is_space c) \<Longrightarrow>
     split_ws (join_str SPACE ws) = ws"
proof (induction SPACE ws rule: join_str.induct)
  case 1
  then show ?case by (simp add: split_ws_def)
next
  case (2 x)
  then have "split_scan [] (x @ []) = split_scan ([] @ x) []"
    by (intro split_scan_word) simp
  with 2 show ?case by (simp add: split_ws_def)
next
  case (3 x y ys)
  from 3 have nx: "\<forall>c \<in> set x. \<not> is_space c" and x: "x \<noteq> []" by simp_all
  have "split_scan [] (x @ SPACE @ join_str SPACE (y # ys))
          = split_scan ([] @ x) (SPACE @ join_str SPACE (y # ys))"
    using nx by (rule split_scan_word)
  also have "\<dots> = x # split_scan [] (join_str SPACE (y # ys))"
    using x by (simp add: SPACE_def is_space_32)
  finally show ?case using 3 by (simp add: split_ws_def)
qed

lemma split_ws_words:
  "\<forall>x \<in> set (split_ws s). x \<noteq> [] \<and> (\<forall>c \<in> set x. \<not> is_space c)"
  using split_scan_words [of _ "[]" s] by (auto simp: split_ws_def)

lemma split_ws_idem: "split_ws (join_str SPACE (split_ws s)) = split_ws s"
  by (rule split_ws_join) (rule split_ws_words)

text \<open>
  Claim C7, as amended. Splitting at whitespace and joining with single spaces is
  idempotent on every string, and \<open>_clean_text\<close> returns every non-empty result of
  its own unchanged. (The empty string is a result of \<open>_clean_text\<close> too, for an
  input of whitespace only, and is mapped to \<open>None\<close>.)
\<close>

theorem clean_text_idempotent_nonempty:
  "join_str SPACE (split_ws (join_str SPACE (split_ws s))) = join_str SPACE (split_ws s)
   \<and> (clean_text v = Some s \<and> s \<noteq> [] \<longrightarrow> clean_text (Some s) = Some s)"
proof -
  have "clean_text (Some s) = Some s" if "clean_text v = Some s" "s \<noteq> []"
  proof -
    from that(1) obtain u where "s = join_str SPACE (split_ws u)"
      by (cases v) (auto simp: clean_text_def split: if_splits)
    then show ?thesis using that(2) by (simp add: clean_text_def split_ws_idem)
  qed
  then show ?thesis by (simp add: split_ws_idem)
qed

theorem clean_text_idempotent_witness:
  "clean_text (Some [97, 32, 32, 98, 10]) = Some [97, 32, 98] \<and> [97, 32, 98] \<noteq> ([]::nat list)
   \<and> clean_text (Some [97, 32, 98]) = Some [97, 32, 98]"
proof -
  have h: "clean_text (Some [97, 32, 32, 98, 10]) = Some [97, 32, 98]"
    by (simp add: clean_text_def split_ws_def is_space_def SPACE_def)
  then show ?thesis
    using clean_text_idempotent_nonempty [of "[97, 32, 98]" "Some [97, 32, 32, 98, 10]"] by simp
qed

text \<open>
  The empty string is returned for the input of one space, and is not returned for
  itself.
\<close>

theorem clean_text_not_idempotent:
  "clean_text (Some [32]) = Some [] \<and> clean_text (Some []) \<noteq> Some []"
  by (simp add: clean_text_def split_ws_def is_space_def SPACE_def)

section \<open>Properties of the retry loop\<close>

lemma backoff_steps_rec:
  "a < k \<Longrightarrow> backoff_steps url t a k = Http_get url t # Sleep (2 * a) # backoff_steps url t (a + 1) k"
  by (simp add: backoff_steps_def upto_rec1 [of a "k - 1"])

lemma backoff_steps_last: "backoff_steps url t k k = [Http_get url t]"
  by (simp add: backoff_steps_def)

lemma fetch_loop_first_ok:
  "a \<le> k \<Longrightarrow> k \<le> N \<Longrightarrow> (\<forall>j. a \<le> j \<and> j < k \<longrightarrow> attempt_body (net j) = None) \<Longrightarrow>
   attempt_body (net k) = Some b \<Longrightarrow>
   fetch_loop net url N t a tr = (Inr b, tr @ backoff_steps url t a k)"
proof (induction "nat (k - a)" arbitrary: a tr)
  case 0
  then have "a = k" by simp
  with 0 show ?case by (simp add: backoff_steps_last)
next
  case (Suc n)
  then have lt: "a < k" and fail: "attempt_body (net a) = None" by auto
  have "fetch_loop net url N t (a + 1) (tr @ [Http_get url t, Sleep (2 * a)])
          = (Inr b, (tr @ [Http_get url t, Sleep (2 * a)]) @ backoff_steps url t (a + 1) k)"
    using Suc.prems Suc.hyps(2) lt by (intro Suc.hyps(1)) auto
  then show ?case
    using lt fail Suc.prems(2) by (simp add: backoff_steps_rec)
qed

lemma fetch_loop_all_fail:
  "a \<le> N \<Longrightarrow> (\<forall>j. a \<le> j \<and> j \<le> N \<longrightarrow> attempt_body (net j) = None) \<Longrightarrow>
   fetch_loop net url N t a tr = (Inl (RuntimeError FETCH_ERROR_MSG), tr @ backoff_steps url t a N)"
proof (induction "nat (N - a)" arbitrary: a tr)
  case 0
  then have "a = N" by simp
  with 0 show ?case by (simp add: backoff_steps_last)
next
  case (Suc n)
  then have lt: "a < N" and fail: "attempt_body (net a) = None" by auto
  have "fetch_loop net url N t (a + 1) (tr @ [Http_get url t, Sleep (2 * a)])
          = (Inl (RuntimeError FETCH_ERROR_MSG),
             (tr @ [Http_get url t, Sleep (2 * a)]) @ backoff_steps url t (a + 1) N)"
    using Suc.prems Suc.hyps(2) lt by (intro Suc.hyps(1)) auto
  then show ?case
    using lt fail by (simp add: backoff_steps_rec)
qed

lemma gets_backoff_steps:
  "a \<le> k \<Longrightarrow> length (filter is_http_get (backoff_steps url t a k)) = nat (k - a + 1)"
proof (induction "nat (k - a)" arbitrary: a)
  case 0
  then have "a = k" by simp
  then show ?case by (simp add: backoff_steps_last)
next
  case (Suc n)
  then have lt: "a < k" by auto
  then have "length (filter is_http_get (backoff_steps url t (a + 1) k)) = nat (k - (a + 1) + 1)"
    using Suc.hyps(2) by (intro Suc.hyps(1)) auto
  then show ?case using lt by (simp add: backoff_steps_rec nat_add_distrib)
qed

lemma sleeps_backoff_steps:
  "a \<le> k \<Longrightarrow> sleeps (backoff_steps url t a k) = map (\<lambda>j. 2 * j) [a..k - 1]"
proof (induction "nat (k - a)" arbitrary: a)
  case 0
  then have "a = k" by simp
  then show ?case by (simp add: backoff_steps_last sleeps_def)
next
  case (Suc n)
  then have lt: "a < k" by auto
  then have "sleeps (backoff_steps url t (a + 1) k) = map (\<lambda>j. 2 * j) [a + 1..k - 1]"
    using Suc.hyps(2) by (intro Suc.hyps(1)) auto
  then show ?case using lt by (simp add: backoff_steps_rec sleeps_def upto_rec1 [of a "k - 1"])
qed

lemma sorted_doubles: "sorted_wrt (<) (map (\<lambda>j. 2 * j) [a..b::int])"
  by (simp add: sorted_wrt_map sorted_wrt_upto)

lemma fetch_page_trace:
  assumes "1 \<le> N"
  shows "\<exists>k. 1 \<le> k \<and> k \<le> N \<and> snd (fetch_page net url N t tr) = tr @ backoff_steps url t 1 k"
proof (cases "\<exists>k. 1 \<le> k \<and> k \<le> N \<and> attempt_body (net k) \<noteq> None")
  case True
  define P where "P = (\<lambda>m. 1 \<le> int m \<and> int m \<le> N \<and> attempt_body (net (int m)) \<noteq> None)"
  from True obtain k where "1 \<le> k" "k \<le> N" "attempt_body (net k) \<noteq> None" by blast
  then have "P (nat k)" by (simp add: P_def)
  then have least: "P (LEAST m. P m)"
    by (rule LeastI)
  have min: "(LEAST m. P m) \<le> m" if "P m" for m
    using that by (rule Least_le)
  define k0 where "k0 = int (LEAST m. P m)"
  from least have k0: "1 \<le> k0" "k0 \<le> N" "attempt_body (net k0) \<noteq> None"
    by (simp_all add: P_def k0_def)
  have "attempt_body (net j) = None" if "1 \<le> j" "j < k0" for j
  proof (rule ccontr)
    assume "attempt_body (net j) \<noteq> None"
    with that k0 have "P (nat j)" by (simp add: P_def)
    then have "(LEAST m. P m) \<le> nat j" by (rule min)
    with that show False by (simp add: k0_def)
  qed
  moreover from k0 obtain b where "attempt_body (net k0) = Some b" by auto
  ultimately have "fetch_loop net url N t 1 tr = (Inr b, tr @ backoff_steps url t 1 k0)"
    using k0 by (intro fetch_loop_first_ok) auto
  with k0 show ?thesis by (auto simp: fetch_page_def)
next
  case False
  then have "fetch_loop net url N t 1 tr
        = (Inl (RuntimeError FETCH_ERROR_MSG), tr @ backoff_steps url t 1 N)"
    using assms by (intro fetch_loop_all_fail) auto
  with assms show ?thesis by (auto simp: fetch_page_def)
qed

text \<open>
  Claim C2. With \<open>retries = N\<close> at least one: at most \<open>N\<close> requests are made and
  the sleeps between them grow strictly; when the attempts before the one numbered
  \<open>k\<close> fail and that one succeeds, its body is returned and used for extraction,
  after exactly the actions \<open>backoff_steps url t 1 k\<close>; when all \<open>N\<close> attempts
  fail, the fetch error is raised after exactly the actions \<open>backoff_steps url t 1 N\<close>.
  In \<open>backoff_steps url t 1 k\<close> the sleeps are \<open>2 * j\<close> for the attempts
  \<open>j\<close> before the one numbered \<open>k\<close>, and the last action is a request, not a sleep.
\<close>

theorem fetch_retry_backoff:
  assumes "1 \<le> N"
  shows "length (filter is_http_get (snd (fetch_page net url N t []))) \<le> nat N
    \<and> sorted_wrt (<) (sleeps (snd (fetch_page net url N t [])))
    \<and> (1 \<le> k \<and> k \<le> N \<and> (\<forall>j. 1 \<le> j \<and> j < k \<longrightarrow> attempt_body (net j) = None)
         \<and> attempt_body (net k) = Some b \<longrightarrow>
       fetch_page net url N t [] = (Inr b, backoff_steps url t 1 k)
       \<and> fst (fetch_product_info net parse url N t []) = Inr (product_info_of_soup (parse b)))
    \<and> ((\<forall>j. 1 \<le> j \<and> j \<le> N \<longrightarrow> attempt_body (net j) = None) \<longrightarrow>
       fetch_page net url N t [] = (Inl (RuntimeError FETCH_ERROR_MSG), backoff_steps url t 1 N))
    \<and> sleeps (backoff_steps url t 1 k) = map (\<lambda>j. 2 * j) [1..k - 1]
    \<and> last (backoff_steps url t 1 k) = Http_get url t"
proof -
  from fetch_page_trace [OF assms, of net url t "[]"]
  obtain k' where k': "1 \<le> k'" "k' \<le> N" "snd (fetch_page net url N t []) = backoff_steps url t 1 k'"
    by auto
  have 1: "length (filter is_http_get (snd (fetch_page net url N t []))) \<le> nat N"
    using k' by (simp add: gets_backoff_steps)
  have 2: "sorted_wrt (<) (sleeps (snd (fetch_page net url N t [])))"
    using k' by (simp add: sleeps_backoff_steps sorted_doubles)
  have 3: "fetch_page net url N t [] = (Inr b, backoff_steps url t 1 k)
       \<and> fst (fetch_product_info net parse url N t []) = Inr (product_info_of_soup (parse b))"
    if "1 \<le> k" "k \<le> N" "\<forall>j. 1 \<le> j \<and> j < k \<longrightarrow> attempt_body (net j) = None"
      "attempt_body (net k) = Some b"
    using fetch_loop_first_ok [OF that(1,2,3,4), of url t "[]"]
    by (simp add: fetch_page_def fetch_product_info_def then_do_def ret_def)
  have 4: "fetch_page net url N t [] = (Inl (RuntimeError FETCH_ERROR_MSG), backoff_steps url t 1 N)"
    if "\<forall>j. 1 \<le> j \<and> j \<le> N \<longrightarrow> attempt_body (net j) = None"
    using fetch_loop_all_fail [OF assms that, of url t "[]"] by (simp add: fetch_page_def)
  have 5: "sleeps (backoff_steps url t 1 k) = map (\<lambda>j. 2 * j) [1..k - 1]"
  proof (cases "1 \<le> k")
    case True
    then show ?thesis by (rule sleeps_backoff_steps)
  next
    case False
    then show ?thesis by (simp add: backoff_steps_def sleeps_def)
  qed
  have 6: "last (backoff_steps url t 1 k) = Http_get url t"
    by (simp add: backoff_steps_def)
  from 1 2 3 4 5 6 show ?thesis by blast
qed

theorem fetch_retry_backoff_witness:
  "fetch_page flaky_net (ascii ''u'') 3 20 []
     = (Inr (ascii ''<title>Shop</title>''),
        [Http_get (ascii ''u'') 20, Sleep 2, Http_get (ascii ''u'') 20, Sleep 4,
         Http_get (ascii ''u'') 20])
   \<and> fetch_page dead_net (ascii ''u'') 2 20 []
     = (Inl (RuntimeError FETCH_ERROR_MSG),
        [Http_get (ascii ''u'') 20, Sleep 2, Http_get (ascii ''u'') 20])"
proof -
  have a: "\<forall>j. 1 \<le> j \<and> j < 3 \<longrightarrow> attempt_body (flaky_net j) = None"
    by (simp add: flaky_net_def)
  have b: "attempt_body (flaky_net 3) = Some (ascii ''<title>Shop</title>'')"
    by (simp add: flaky_net_def)
  have c: "\<forall>j. 1 \<le> j \<and> j \<le> 2 \<longrightarrow> attempt_body (dead_net j) = None"
    by (simp add: dead_net_def)
  have s3: "backoff_steps u t 1 3 = [Http_get u t, Sleep 2, Http_get u t, Sleep 4, Http_get u t]" for u t
    by (simp add: backoff_steps_def upto_rec1)
  have s2: "backoff_steps u t 1 2 = [Http_get u t, Sleep 2, Http_get u t]" for u t
    by (simp add: backoff_steps_def upto_rec1)
  show ?thesis
    using fetch_retry_backoff [of 3 flaky_net "ascii ''u''" 20 3 "ascii ''<title>Shop</title>''"]
      fetch_retry_backoff [of 2 dead_net "ascii ''u''" 20] a b c
    by (simp add: s2 s3)
qed

section \<open>Properties of the locator fallback\<close>

lemma find_first_loop_step:
  "find_first_loop w t (l # ls) le tr =
     (case wait_failure (wait_reply w tr (Until_presence t l)) of
        Some d \<Rightarrow> find_first_loop w t ls (Some d) (tr @ [Until_presence t l])
      | None \<Rightarrow> (wait_reply w tr (Until_presence t l), tr @ [Until_presence t l]))"
proof (cases "wait_reply w tr (Until_presence t l)")
  case (Inl e)
  then show ?thesis by (cases e) simp_all
next
  case (Inr el)
  then show ?thesis by simp
qed

lemma find_first_loop_skip:
  "all_fail w t pre tr \<Longrightarrow>
   \<exists>le'. find_first_loop w t (pre @ rest) le tr = find_first_loop w t rest le' (tr @ waits t pre)"
proof (induction pre arbitrary: le tr)
  case Nil
  then show ?case by (auto simp: waits_def)
next
  case (Cons l ls)
  then obtain d where d: "wait_failure (wait_reply w tr (Until_presence t l)) = Some d"
    and rest: "all_fail w t ls (tr @ [Until_presence t l])" by auto
  from Cons.IH [OF rest, of "Some d"] d show ?case
    by (simp add: find_first_loop_step waits_def del: find_first_loop.simps)
qed

lemma find_first_loop_all_fail:
  "sels \<noteq> [] \<Longrightarrow> all_fail w t sels tr \<Longrightarrow>
   \<exists>d. wait_failure (wait_reply w (tr @ waits t (butlast sels)) (Until_presence t (last sels))) = Some d
      \<and> find_first_loop w t sels le tr
          = (Inl (TimeoutException \<lparr>msg = wd_str d, report = []\<rparr>), tr @ waits t sels)"
proof (induction sels arbitrary: le tr)
  case Nil
  then show ?case by simp
next
  case (Cons l ls)
  then obtain d where d: "wait_failure (wait_reply w tr (Until_presence t l)) = Some d"
    and rest: "all_fail w t ls (tr @ [Until_presence t l])" by auto
  show ?case
  proof (cases "ls = []")
    case True
    with d show ?thesis
      by (simp add: find_first_loop_step waits_def del: find_first_loop.simps(2))
  next
    case False
    from Cons.IH [OF False rest, of "Some d"] d False show ?thesis
      by (simp add: find_first_loop_step waits_def del: find_first_loop.simps)
  qed
qed

lemma find_first_element_not_found:
  "all_fail w t sels tr \<Longrightarrow>
   \<exists>d. find_first_element w t sels tr = (Inl (TimeoutException d), tr @ waits t sels)"
proof (cases "sels = []")
  case True
  then show ?thesis by (simp add: find_first_element_def waits_def)
next
  case False
  assume "all_fail w t sels tr"
  from find_first_loop_all_fail [OF False this, of None] show ?thesis
    by (auto simp: find_first_element_def)
qed

text \<open>
  Claim C3. The locators are tried in order, each with the given timeout. If the
  locators before \<open>l\<close> all fail and \<open>l\<close> succeeds, the element found for \<open>l\<close> is
  returned and no later locator is tried. If every locator of a non-empty list fails,
  a \<open>TimeoutException\<close> is raised whose message is the text of the last wait
  failure. For the empty list a \<open>TimeoutException\<close> with the message
  \<open>No selectors provided\<close> is raised, which is the text of no wait failure.
\<close>

theorem find_first_element_cases:
  "(all_fail w t pre tr \<and> wait_reply w (tr @ waits t pre) (Until_presence t l) = Inr el \<longrightarrow>
      find_first_element w t (pre @ l # post) tr = (Inr el, tr @ waits t (pre @ [l])))
   \<and> (sels \<noteq> [] \<and> all_fail w t sels tr \<longrightarrow>
        (\<exists>d. wait_failure (wait_reply w (tr @ waits t (butlast sels))
                 (Until_presence t (last sels))) = Some d
           \<and> find_first_element w t sels tr
               = (Inl (TimeoutException \<lparr>msg = wd_str d, report = []\<rparr>), tr @ waits t sels)))
   \<and> find_first_element w t [] tr
        = (Inl (TimeoutException \<lparr>msg = ascii ''No selectors provided'', report = []\<rparr>), tr)
   \<and> wd_str d' \<noteq> ascii ''No selectors provided''"
proof -
  have 1: "find_first_element w t (pre @ l # post) tr = (Inr el, tr @ waits t (pre @ [l]))"
    if "all_fail w t pre tr" "wait_reply w (tr @ waits t pre) (Until_presence t l) = Inr el"
  proof -
    from find_first_loop_skip [OF that(1), of "l # post" None]
    obtain le' where "find_first_loop w t (pre @ l # post) None tr
        = find_first_loop w t (l # post) le' (tr @ waits t pre)" by blast
    with that(2) show ?thesis
      by (simp add: find_first_element_def waits_def)
  qed
  have 2: "\<exists>d. wait_failure (wait_reply w (tr @ waits t (butlast sels))
                 (Until_presence t (last sels))) = Some d
           \<and> find_first_element w t sels tr
               = (Inl (TimeoutException \<lparr>msg = wd_str d, report = []\<rparr>), tr @ waits t sels)"
    if "sels \<noteq> []" "all_fail w t sels tr"
    using find_first_loop_all_fail [OF that, of None] by (simp add: find_first_element_def)
  have 3: "find_first_element w t [] tr
        = (Inl (TimeoutException \<lparr>msg = ascii ''No selectors provided'', report = []\<rparr>), tr)"
    by (simp add: find_first_element_def)
  have 4: "wd_str d' \<noteq> ascii ''No selectors provided''"
    by (simp add: wd_str_def ascii_def)
  from 1 2 3 4 show ?thesis by blast
qed

theorem find_first_element_cases_witness:
  "find_first_element third_wait_world 15 LOGIN_USERNAME_SELECTORS []
     = (Inr 7, waits 15 LOGIN_USERNAME_SELECTORS)
   \<and> find_first_element no_element_world 15 LOGIN_USERNAME_SELECTORS []
     = (Inl (TimeoutException \<lparr>msg = wd_str missing_error, report = []\<rparr>),
        waits 15 LOGIN_USERNAME_SELECTORS)"
proof -
  have a: "all_fail third_wait_world 15 [(By_ID, ascii ''loginInner_u''), (By_NAME, ascii ''u'')] []"
    by (simp add: third_wait_world_def)
  have b: "wait_reply third_wait_world
             ([] @ waits 15 [(By_ID, ascii ''loginInner_u''), (By_NAME, ascii ''u'')])
             (Until_presence 15 (By_NAME, ascii ''login_id'')) = Inr 7"
    by (simp add: third_wait_world_def waits_def)
  have c: "all_fail no_element_world 15 LOGIN_USERNAME_SELECTORS []"
    by (simp add: no_element_world_def LOGIN_USERNAME_SELECTORS_def)
  have d: "wait_failure (wait_reply no_element_world ([] @ waits 15 (butlast LOGIN_USERNAME_SELECTORS))
             (Until_presence 15 (last LOGIN_USERNAME_SELECTORS))) = Some missing_error"
    by (simp add: no_element_world_def LOGIN_USERNAME_SELECTORS_def waits_def)
  have e: "LOGIN_USERNAME_SELECTORS \<noteq> []"
    by (simp add: LOGIN_USERNAME_SELECTORS_def)
  from a b have "find_first_element third_wait_world 15 LOGIN_USERNAME_SELECTORS []
     = (Inr 7, waits 15 LOGIN_USERNAME_SELECTORS)"
    using find_first_element_cases [of third_wait_world 15
        "[(By_ID, ascii ''loginInner_u''), (By_NAME, ascii ''u'')]" "[]"
        "(By_NAME, ascii ''login_id'')" 7 "[]"]
    by (simp add: LOGIN_USERNAME_SELECTORS_def)
  moreover from c d e have "find_first_element no_element_world 15 LOGIN_USERNAME_SELECTORS []
     = (Inl (TimeoutException \<lparr>msg = wd_str missing_error, report = []\<rparr>),
        waits 15 LOGIN_USERNAME_SELECTORS)"
    using find_first_element_cases [of no_element_world 15 _ "[]" _ _ _ LOGIN_USERNAME_SELECTORS]
    by auto
  ultimately show ?thesis by simp
qed


section \<open>Properties of the login step\<close>

lemma login_no_credentials:
  "\<not> truthy (username config) \<or> \<not> truthy (password config) \<Longrightarrow>
   login_if_required w config tr = (Inr (), tr)"
  by (cases "username config"; cases "password config")
    (auto simp: login_if_required_def ret_def)

lemma login_username_missing:
  assumes "truthy (username config)" "truthy (password config)"
    and "all_fail w 15 LOGIN_USERNAME_SELECTORS tr"
  shows "login_if_required w config tr = (Inr (), tr @ waits 15 LOGIN_USERNAME_SELECTORS)"
proof -
  from assms(1,2) obtain user pass where c: "username config = Some user" "password config = Some pass"
    "user \<noteq> []" "pass \<noteq> []"
    by (cases "username config"; cases "password config") auto
  from find_first_element_not_found [OF assms(3)] obtain d where
    "find_first_element w 15 LOGIN_USERNAME_SELECTORS tr
       = (Inl (TimeoutException d), tr @ waits 15 LOGIN_USERNAME_SELECTORS)" by blast
  with c show ?thesis
    by (simp add: login_if_required_def then_do_def except_timeout_def ret_def)
qed

lemma login_password_missing:
  assumes "truthy (username config)" "truthy (password config)"
    and "find_first_element w 15 LOGIN_USERNAME_SELECTORS tr = (Inr u, tr1)"
    and "all_fail w 15 LOGIN_PASSWORD_SELECTORS tr1"
  shows "login_if_required w config tr = (Inr (), tr1 @ waits 15 LOGIN_PASSWORD_SELECTORS)"
proof -
  from assms(1,2) obtain user pass where c: "username config = Some user" "password config = Some pass"
    "user \<noteq> []" "pass \<noteq> []"
    by (cases "username config"; cases "password config") auto
  from find_first_element_not_found [OF assms(4)] obtain d where
    "find_first_element w 15 LOGIN_PASSWORD_SELECTORS tr1
       = (Inl (TimeoutException d), tr1 @ waits 15 LOGIN_PASSWORD_SELECTORS)" by blast
  with c assms(3) show ?thesis
    by (simp add: login_if_required_def then_do_def except_timeout_def ret_def)
qed

lemma login_submit_missing:
  assumes "username config = Some user" "password config = Some pass"
    and "truthy (username config)" "truthy (password config)"
    and "find_first_element w 15 LOGIN_USERNAME_SELECTORS tr = (Inr u, tr1)"
    and "find_first_element w 15 LOGIN_PASSWORD_SELECTORS tr1 = (Inr p, tr2)"
    and "command_reply w tr2 (Clear u) = None"
    and "command_reply w (tr2 @ [Clear u]) (Send_keys u user) = None"
    and "command_reply w (tr2 @ [Clear u, Send_keys u user]) (Clear p) = None"
    and "command_reply w (tr2 @ [Clear u, Send_keys u user, Clear p]) (Send_keys p pass) = None"
    and "all_fail w 15 LOGIN_SUBMIT_SELECTORS
           (tr2 @ [Clear u, Send_keys u user, Clear p, Send_keys p pass])"
  shows "login_if_required w config tr
           = (Inl (RuntimeError (ascii ''Unable to locate login submit button.'')),
              tr2 @ [Clear u, Send_keys u user, Clear p, Send_keys p pass]
                  @ waits 15 LOGIN_SUBMIT_SELECTORS)"
proof -
  from find_first_element_not_found [OF assms(11)] obtain d where
    "find_first_element w 15 LOGIN_SUBMIT_SELECTORS
         (tr2 @ [Clear u, Send_keys u user, Clear p, Send_keys p pass])
       = (Inl (TimeoutException d),
          (tr2 @ [Clear u, Send_keys u user, Clear p, Send_keys p pass])
            @ waits 15 LOGIN_SUBMIT_SELECTORS)" by blast
  with assms(1-10) show ?thesis
    by (simp add: login_if_required_def then_do_def except_timeout_def ret_def raise_def
        command_def LOGIN_SUBMIT_MSG_def)
qed

text \<open>
  Claim C8. Without a user name or without a password \<open>login_if_required\<close> returns
  at once and does nothing. With both, it returns without error when no user name
  locator can be located, and when the user name field is found but no password locator
  can be located; all it has done then are the waits. When both fields are found and
  filled and no locator of the login button can be located, it raises the
  \<open>RuntimeError\<close> \<open>Unable to locate login submit button.\<close>
\<close>

theorem login_if_required_cases:
  "(\<not> truthy (username config) \<or> \<not> truthy (password config) \<longrightarrow>
      login_if_required w config tr = (Inr (), tr))
   \<and> (truthy (username config) \<and> truthy (password config)
        \<and> all_fail w 15 LOGIN_USERNAME_SELECTORS tr \<longrightarrow>
      login_if_required w config tr = (Inr (), tr @ waits 15 LOGIN_USERNAME_SELECTORS))
   \<and> (truthy (username config) \<and> truthy (password config)
        \<and> find_first_element w 15 LOGIN_USERNAME_SELECTORS tr = (Inr u, tr1)
        \<and> all_fail w 15 LOGIN_PASSWORD_SELECTORS tr1 \<longrightarrow>
      login_if_required w config tr = (Inr (), tr1 @ waits 15 LOGIN_PASSWORD_SELECTORS))
   \<and> (username config = Some user \<and> password config = Some pass
        \<and> truthy (username config) \<and> truthy (password config)
        \<and> find_first_element w 15 LOGIN_USERNAME_SELECTORS tr = (Inr u, tr1)
        \<and> find_first_element w 15 LOGIN_PASSWORD_SELECTORS tr1 = (Inr p, tr2)
        \<and> command_reply w tr2 (Clear u) = None
        \<and> command_reply w (tr2 @ [Clear u]) (Send_keys u user) = None
        \<and> command_reply w (tr2 @ [Clear u, Send_keys u user]) (Clear p) = None
        \<and> command_reply w (tr2 @ [Clear u, Send_keys u user, Clear p]) (Send_keys p pass) = None
        \<and> all_fail w 15 LOGIN_SUBMIT_SELECTORS
             (tr2 @ [Clear u, Send_keys u user, Clear p, Send_keys p pass]) \<longrightarrow>
      login_if_required w config tr
        = (Inl (RuntimeError (ascii ''Unable to locate login submit button.'')),
           tr2 @ [Clear u, Send_keys u user, Clear p, Send_keys p pass]
               @ waits 15 LOGIN_SUBMIT_SELECTORS))"
  using login_no_credentials [of config w tr] login_username_missing [of config w tr]
    login_password_missing [of config w tr u tr1]
    login_submit_missing [of config user pass w tr u tr1 p tr2]
  by blast

theorem login_if_required_cases_witness:
  "login_if_required fields_only_world guest_config [] = (Inr (), [])
   \<and> login_if_required no_element_world member_config []
       = (Inr (), waits 15 LOGIN_USERNAME_SELECTORS)
   \<and> login_if_required username_only_world member_config []
       = (Inr (), Until_presence 15 (By_ID, ascii ''loginInner_u'')
                    # waits 15 LOGIN_PASSWORD_SELECTORS)
   \<and> login_if_required fields_only_world member_config []
       = (Inl (RuntimeError (ascii ''Unable to locate login submit button.'')),
          login_fill @ waits 15 LOGIN_SUBMIT_SELECTORS)"
proof -
  have c: "username member_config = Some (ascii ''hanako'')"
    "password member_config = Some (ascii ''secret'')"
    "truthy (username member_config)" "truthy (password member_config)"
    by (simp_all add: member_config_def ascii_def)
  have g: "\<not> truthy (username guest_config)"
    by (simp add: guest_config_def)
  have 1: "login_if_required fields_only_world guest_config [] = (Inr (), [])"
    using login_if_required_cases [of guest_config fields_only_world "[]"] g by simp
  have a2: "all_fail no_element_world 15 LOGIN_USERNAME_SELECTORS []"
    by (simp add: no_element_world_def LOGIN_USERNAME_SELECTORS_def)
  have 2: "login_if_required no_element_world member_config []
       = (Inr (), waits 15 LOGIN_USERNAME_SELECTORS)"
    using login_if_required_cases [of member_config no_element_world "[]"] c a2 by simp
  have u3: "find_first_element username_only_world 15 LOGIN_USERNAME_SELECTORS []
       = (Inr 1, [Until_presence 15 (By_ID, ascii ''loginInner_u'')])"
    by (simp add: find_first_element_def username_only_world_def LOGIN_USERNAME_SELECTORS_def)
  have a3: "all_fail username_only_world 15 LOGIN_PASSWORD_SELECTORS
       [Until_presence 15 (By_ID, ascii ''loginInner_u'')]"
    by (simp add: username_only_world_def LOGIN_PASSWORD_SELECTORS_def)
  have 3: "login_if_required username_only_world member_config []
       = (Inr (), Until_presence 15 (By_ID, ascii ''loginInner_u'')
                    # waits 15 LOGIN_PASSWORD_SELECTORS)"
    using login_if_required_cases [of member_config username_only_world "[]" 1
        "[Until_presence 15 (By_ID, ascii ''loginInner_u'')]"] c u3 a3 by simp
  have u4: "find_first_element fields_only_world 15 LOGIN_USERNAME_SELECTORS []
       = (Inr 1, [Until_presence 15 (By_ID, ascii ''loginInner_u'')])"
    by (simp add: find_first_element_def fields_only_world_def LOGIN_USERNAME_SELECTORS_def)
  have p4: "find_first_element fields_only_world 15 LOGIN_PASSWORD_SELECTORS
         [Until_presence 15 (By_ID, ascii ''loginInner_u'')]
       = (Inr 2, [Until_presence 15 (By_ID, ascii ''loginInner_u''),
                  Until_presence 15 (By_ID, ascii ''loginInner_p'')])"
    by (simp add: find_first_element_def fields_only_world_def LOGIN_PASSWORD_SELECTORS_def)
  have k4: "command_reply fields_only_world tr a = None" for tr a
    by (simp add: fields_only_world_def)
  have a4: "all_fail fields_only_world 15 LOGIN_SUBMIT_SELECTORS
       ([Until_presence 15 (By_ID, ascii ''loginInner_u''),
         Until_presence 15 (By_ID, ascii ''loginInner_p'')]
        @ [Clear 1, Send_keys 1 (ascii ''hanako''), Clear 2, Send_keys 2 (ascii ''secret'')])"
    by (simp add: fields_only_world_def LOGIN_SUBMIT_SELECTORS_def)
  have 4: "login_if_required fields_only_world member_config []
       = (Inl (RuntimeError (ascii ''Unable to locate login submit button.'')),
          login_fill @ waits 15 LOGIN_SUBMIT_SELECTORS)"
    using login_if_required_cases [of member_config fields_only_world "[]" 1
        "[Until_presence 15 (By_ID, ascii ''loginInner_u'')]"
        "ascii ''hanako''" "ascii ''secret''" 2
        "[Until_presence 15 (By_ID, ascii ''loginInner_u''),
          Until_presence 15 (By_ID, ascii ''loginInner_p'')]"] c u4 p4 k4 a4
    by (simp add: login_fill_def)
  from 1 2 3 4 show ?thesis by simp
qed


section \<open>Properties of the run\<close>

lemma no_quitI: "(\<And>tr. \<exists>new. snd (m tr) = tr @ new \<and> Quit \<notin> set new) \<Longrightarrow> no_quit m"
  by (simp add: no_quit_def)

lemma no_quitD: "no_quit m \<Longrightarrow> \<exists>new. snd (m tr) = tr @ new \<and> Quit \<notin> set new"
  by (simp add: no_quit_def)

lemma no_quit_ret: "no_quit (ret x)"
  by (simp add: no_quit_def ret_def)

lemma no_quit_raise: "no_quit (raise e)"
  by (simp add: no_quit_def raise_def)

lemma no_quit_sleep: "no_quit (sleep n)"
  by (simp add: no_quit_def sleep_def)

lemma no_quit_window_handles: "no_quit (window_handles w)"
  by (simp add: no_quit_def window_handles_def)

lemma no_quit_wait_for: "a \<noteq> Quit \<Longrightarrow> no_quit (wait_for w a)"
  by (simp add: no_quit_def wait_for_def)

lemma no_quit_command: "a \<noteq> Quit \<Longrightarrow> no_quit (command w a)"
  by (auto simp: no_quit_def command_def split: option.splits)

lemma no_quit_then_do:
  assumes "no_quit m" and "\<And>x. no_quit (f x)"
  shows "no_quit (then_do m f)"
proof (rule no_quitI)
  fix tr
  from no_quitD [OF assms(1), of tr] obtain n1 where n1: "snd (m tr) = tr @ n1" "Quit \<notin> set n1"
    by blast
  show "\<exists>new. snd (then_do m f tr) = tr @ new \<and> Quit \<notin> set new"
  proof (cases "m tr")
    case (Pair r tr1)
    with n1 have tr1: "tr1 = tr @ n1" by simp
    show ?thesis
    proof (cases r)
      case (Inl e)
      with Pair n1 show ?thesis by (simp add: then_do_def)
    next
      case (Inr x)
      from no_quitD [OF assms(2), of x tr1] obtain n2 where
        "snd (f x tr1) = tr1 @ n2" "Quit \<notin> set n2" by blast
      with Pair Inr tr1 n1 show ?thesis by (simp add: then_do_def)
    qed
  qed
qed

lemma no_quit_except_timeout:
  assumes "no_quit m" and "\<And>d. no_quit (h d)"
  shows "no_quit (except_timeout m h)"
proof (rule no_quitI)
  fix tr
  from no_quitD [OF assms(1), of tr] obtain n1 where n1: "snd (m tr) = tr @ n1" "Quit \<notin> set n1"
    by blast
  show "\<exists>new. snd (except_timeout m h tr) = tr @ new \<and> Quit \<notin> set new"
  proof (cases "m tr")
    case (Pair r tr1)
    with n1 have tr1: "tr1 = tr @ n1" by simp
    show ?thesis
    proof (cases "\<exists>d. r = Inl (TimeoutException d)")
      case True
      then obtain d where d: "r = Inl (TimeoutException d)" by blast
      from no_quitD [OF assms(2), of d tr1] obtain n2 where
        "snd (h d tr1) = tr1 @ n2" "Quit \<notin> set n2" by blast
      with Pair d tr1 n1 show ?thesis by (simp add: except_timeout_def)
    next
      case False
      then have "except_timeout m h tr = (r, tr1)"
        using Pair by (auto simp: except_timeout_def split: sum.splits exn.splits)
      with tr1 n1 show ?thesis by simp
    qed
  qed
qed

lemma no_quit_find_first_loop: "no_quit (find_first_loop w t sels le)"
proof (rule no_quitI)
  fix tr
  show "\<exists>new. snd (find_first_loop w t sels le tr) = tr @ new \<and> Quit \<notin> set new"
  proof (induction sels arbitrary: le tr)
    case Nil
    then show ?case by (simp split: option.splits)
  next
    case (Cons l ls)
    show ?case
    proof (cases "wait_failure (wait_reply w tr (Until_presence t l))")
      case None
      then show ?thesis by (simp add: find_first_loop_step del: find_first_loop.simps)
    next
      case (Some d)
      from Cons.IH [of "Some d" "tr @ [Until_presence t l]"] obtain new where
        "snd (find_first_loop w t ls (Some d) (tr @ [Until_presence t l]))
           = (tr @ [Until_presence t l]) @ new" "Quit \<notin> set new" by blast
      with Some show ?thesis by (simp add: find_first_loop_step del: find_first_loop.simps)
    qed
  qed
qed

lemma no_quit_find_first_element: "no_quit (find_first_element w t sels)"
  unfolding find_first_element_def by (rule no_quit_find_first_loop)

lemmas no_quit_rules =
  no_quit_then_do no_quit_except_timeout no_quit_ret no_quit_raise no_quit_sleep
  no_quit_window_handles no_quit_find_first_element

lemma no_quit_navigate_to_room: "no_quit (navigate_to_room w url)"
  unfolding navigate_to_room_def
  by (intro no_quit_rules no_quit_command no_quit_wait_for | simp add: no_quit_rules no_quit_command)+

lemma no_quit_login_if_required: "no_quit (login_if_required w config)"
  unfolding login_if_required_def
  by (auto split: option.splits prod.splits
      intro!: no_quit_rules no_quit_command no_quit_wait_for)

lemma no_quit_post_review: "no_quit (post_review w review config)"
  unfolding post_review_def
  by (intro no_quit_rules no_quit_command no_quit_wait_for | simp)+

text \<open>
  Claim C9. However navigation, login and posting end, with a value or with an
  exception, the posting workflow adds to the actions done before it a sequence that
  ends with \<open>quit\<close> and contains no other \<open>quit\<close>.
\<close>

theorem quit_exactly_once:
  "\<exists>new. snd (posting_workflow w config url review tr) = tr @ new @ [Quit] \<and> Quit \<notin> set new"
proof -
  have "no_quit (then_do (navigate_to_room w url) (\<lambda>_.
        then_do (login_if_required w config) (\<lambda>_. post_review w review config)))"
    by (intro no_quit_then_do no_quit_navigate_to_room no_quit_login_if_required
        no_quit_post_review)
  from no_quitD [OF this, of tr] obtain new where
    new: "snd (then_do (navigate_to_room w url) (\<lambda>_.
        then_do (login_if_required w config) (\<lambda>_. post_review w review config)) tr) = tr @ new"
    "Quit \<notin> set new" by blast
  then have "snd (posting_workflow w config url review tr) = tr @ new @ [Quit]"
    by (auto simp: posting_workflow_def try_finally_def command_def
        split: prod.splits option.splits sum.splits)
  with new(2) show ?thesis by blast
qed

end
